theory Spec2Isabelle
  imports Main
begin

section \<open>Host integration of Pyblish QML (pyblish_qml/host.py)\<close>

text \<open>
  The module keeps its state in the process-wide dictionary \<open>_state\<close> and otherwise
  calls into collaborators: \<open>pyblish.api\<close> (callback registration), \<open>ipc.service\<close> and
  \<open>ipc.server\<close> (the GUI process), Qt (splash screen, quit signal), the host
  applications' Python modules, \<open>sys.stdout\<close> and \<open>traceback\<close>.

  The embedding threads a \<open>world\<close> through every function: the dictionary, the two
  attributes of the \<open>settings\<close> module that the installers assign, and the trace of the
  effects that took place on the collaborators, in program order, and the callbacks
  registered with \<open>pyblish.api\<close>. What a collaborator answers (whether a module can be
  imported, whether a call raises) is a parameter of the function that asks. A Python
  exception is the left injection of the result.
\<close>

subsection \<open>Values, exceptions and the dictionary\<close>

datatype exn =
  TypeError | ValueError | KeyError | AssertionError | ImportError | IOError | OSError
  | RuntimeError | AttributeError | OtherError

text \<open>What \<open>inspect.getargspec\<close> reports of a Python function: the names of the
  positional parameters, of the \<open>*varargs\<close> parameter and of the \<open>**keywords\<close> parameter
  (the field \<open>keywords\<close> of the source is \<open>keywords'\<close> here).\<close>

record argspec =
  args :: "string list"
  varargs :: "string option"
  keywords' :: "string option"

text \<open>The host call a wrapper body makes, and whether the arguments are passed on
  unpacked, \<open>(func, *args, **kwargs)\<close>, or as they are, \<open>(func, args, kwargs)\<close>.\<close>

datatype main_thread_api = MayaUtils | Hdefereval | NukeModule | HieroCore

datatype call_shape = Unpacked | Packed

datatype wrapper_body =
  ExecuteInMainThreadWithResult main_thread_api call_shape
  | HostSupplied nat

text \<open>A wrapper is a Python function object: its positional and variadic parameters
  (\<open>signature\<close>), its keyword-only parameters and the parameters it annotates (both
  always empty on Python 2, whose functions have neither), and its body.\<close>

record wrapper =
  signature :: argspec
  kwonlyargs :: "string list"
  annotations :: "string list"
  body :: wrapper_body

text \<open>\<open>inspect.getargspec\<close>: on Python 3 it raises \<open>ValueError\<close> for a function with
  keyword-only parameters or annotations, which an \<open>ArgSpec\<close> cannot hold; otherwise it
  returns the \<open>ArgSpec\<close>.\<close>

definition getargspec :: "wrapper \<Rightarrow> exn + argspec" where
  "getargspec wr =
     (if kwonlyargs wr \<noteq> [] \<or> annotations wr \<noteq> [] then Inl ValueError
      else Inr (signature wr))"

text \<open>A server object, known by its process handle \<open>popen\<close>.\<close>

datatype server = Server (popen: nat)

datatype val = VNone | VBool bool | VStr string | VWrapper wrapper | VServer server

text \<open>Python's truth value of an object, as \<open>if x:\<close> tests it.\<close>

fun truthy :: "val \<Rightarrow> bool" where
  "truthy VNone = False"
| "truthy (VBool b) = b"
| "truthy (VStr s) = (s \<noteq> [])"
| "truthy (VWrapper _) = True"
| "truthy (VServer _) = True"

type_synonym dict = "string \<rightharpoonup> val"

text \<open>\<open>d.get(k)\<close>, \<open>d[k]\<close> and \<open>d.pop(k)\<close>: the first answers \<open>None\<close> on a missing key,
  the other two raise \<open>KeyError\<close>.\<close>

definition dict_get :: "dict \<Rightarrow> string \<Rightarrow> val" where
  "dict_get d k = (case d k of None \<Rightarrow> VNone | Some v \<Rightarrow> v)"

definition dict_item :: "dict \<Rightarrow> string \<Rightarrow> exn + val" where
  "dict_item d k = (case d k of None \<Rightarrow> Inl KeyError | Some v \<Rightarrow> Inr v)"

definition dict_pop :: "dict \<Rightarrow> string \<Rightarrow> exn + val \<times> dict" where
  "dict_pop d k = (case d k of None \<Rightarrow> Inl KeyError | Some v \<Rightarrow> Inr (v, d(k := None)))"

subsection \<open>The world\<close>

datatype handler = ToggleInstance | TogglePlugin | OnShown

record ui_settings =
  ContextLabel :: string
  WindowTitle :: string

datatype event =
  Stdout string
  | RegisterCallback string handler
  | DeregisterCallback string handler
  | PrintExc
  | SplashShow
  | SplashClose
  | NewService
  | NewServer server
  | ProxyShow val ui_settings
  | AboutToQuitConnect
  | AtexitRegister
  | Kill server

text \<open>\<open>callbacks\<close> is the registry of \<open>pyblish.api\<close>: a dictionary from a signal's name
  to the list of the callbacks registered for it.\<close>

record world =
  state :: dict
  settings :: ui_settings
  trace :: "event list"
  callbacks :: "string \<rightharpoonup> handler list"

definition emit :: "event \<Rightarrow> world \<Rightarrow> world" where
  "emit ev w = w\<lparr>trace := trace w @ [ev]\<rparr>"

definition newline :: string where
  "newline = [CHR 0x0A]"

text \<open>\<open>pyblish.api.register_callback(signal, callback)\<close> appends the callback to the
  signal's list, which it creates when the signal is new (it raises only for an
  object that cannot be called, and every callback here is a function).
  \<open>pyblish.api.deregister_callback(signal, callback)\<close> is
  \<open>_registered_callbacks[signal].remove(callback)\<close>: \<open>KeyError\<close> for a signal that was
  never registered, \<open>ValueError\<close> for a callback that is not in the signal's list. The
  nested function \<open>on_shown\<close> is a new object at every call of \<open>show\<close>; \<open>OnShown\<close> stands
  for all of them, so the list only counts them.\<close>

definition register_callback :: "string \<Rightarrow> handler \<Rightarrow> world \<Rightarrow> world" where
  "register_callback signal cb w =
     emit (RegisterCallback signal cb)
       (w\<lparr>callbacks := (callbacks w)
           (signal \<mapsto> (case callbacks w signal of None \<Rightarrow> [cb] | Some l \<Rightarrow> l @ [cb]))\<rparr>)"

definition deregister_callback :: "string \<Rightarrow> handler \<Rightarrow> world \<Rightarrow> (exn + unit) \<times> world" where
  "deregister_callback signal cb w =
     (case callbacks w signal of
        None \<Rightarrow> (Inl KeyError, w)
      | Some l \<Rightarrow>
          (if cb \<in> set l
           then (Inr (), emit (DeregisterCallback signal cb)
                           (w\<lparr>callbacks := (callbacks w)(signal \<mapsto> remove1 cb l)\<rparr>))
           else (Inl ValueError, w)))"

subsection \<open>Dispatch wrapper registry\<close>

definition register_dispatch_wrapper :: "wrapper \<Rightarrow> world \<Rightarrow> (exn + unit) \<times> world" where
  "register_dispatch_wrapper wr w =
     (case getargspec wr of
        Inl x \<Rightarrow> (Inl x, w)
      | Inr sig \<Rightarrow>
          (if length (args sig) \<noteq> 1 \<or> varargs sig = None \<or> keywords' sig = None
           then (Inl TypeError, w)
           else (Inr (), w\<lparr>state := (state w)(''dispatchWrapper'' \<mapsto> VWrapper wr)\<rparr>)))"

definition deregister_dispatch_wrapper :: "world \<Rightarrow> (exn + unit) \<times> world" where
  "deregister_dispatch_wrapper w =
     (case dict_pop (state w) ''dispatchWrapper'' of
        Inl x \<Rightarrow> (Inl x, w)
      | Inr (v, d) \<Rightarrow> (Inr (), w\<lparr>state := d\<rparr>))"

definition dispatch_wrapper :: "world \<Rightarrow> val" where
  "dispatch_wrapper w = dict_get (state w) ''dispatchWrapper''"

definition current_server :: "world \<Rightarrow> val" where
  "current_server w = dict_get (state w) ''currentServer''"

subsection \<open>Python executable registry\<close>

text \<open>\<open>os.path.isfile\<close> is a parameter: the file system answers it. The \<open>assert\<close>
  statement is modelled as the interpreter runs it by default, with assertions on.\<close>

definition register_python_executable ::
    "(string \<Rightarrow> bool) \<Rightarrow> string \<Rightarrow> world \<Rightarrow> (exn + unit) \<times> world" where
  "register_python_executable isfile path w =
     (if \<not> isfile path then (Inl AssertionError, w)
      else (Inr (), w\<lparr>state := (state w)(''pythonExecutable'' \<mapsto> VStr path)\<rparr>))"

definition registered_python_executable :: "world \<Rightarrow> val" where
  "registered_python_executable w = dict_get (state w) ''pythonExecutable''"

definition register_pyqt5 :: "string \<Rightarrow> world \<Rightarrow> world" where
  "register_pyqt5 path w = w\<lparr>state := (state w)(''pyqt5'' \<mapsto> VStr path)\<rparr>"

subsection \<open>Toggling callbacks\<close>

text \<open>An instance carries a dictionary \<open>data\<close>, a plug-in an attribute \<open>active\<close>; whatever
  else either object holds is the extension of the record.\<close>

record instance_obj =
  data :: dict

record plugin_obj =
  active :: val

definition toggle_instance ::
    "'a instance_obj_scheme \<Rightarrow> val \<Rightarrow> val \<Rightarrow> 'a instance_obj_scheme" where
  "toggle_instance inst new_value old_value = inst\<lparr>data := (data inst)(''publish'' \<mapsto> new_value)\<rparr>"

definition toggle_plugin ::
    "'a plugin_obj_scheme \<Rightarrow> val \<Rightarrow> val \<Rightarrow> 'a plugin_obj_scheme" where
  "toggle_plugin plug new_value old_value = plug\<lparr>active := new_value\<rparr>"

definition install_callbacks :: "world \<Rightarrow> world" where
  "install_callbacks w =
     register_callback ''pluginToggled'' TogglePlugin
       (register_callback ''instanceToggled'' ToggleInstance w)"

definition uninstall_callbacks :: "world \<Rightarrow> (exn + unit) \<times> world" where
  "uninstall_callbacks w =
     (case deregister_callback ''instanceToggled'' ToggleInstance w of
        (Inl x, w1) \<Rightarrow> (Inl x, w1)
      | (Inr _, w1) \<Rightarrow> deregister_callback ''pluginToggled'' TogglePlugin w1)"

subsection \<open>Host installers\<close>

text \<open>What the running interpreter answers to the installers: which host modules can
  be imported, the command line \<open>nuke.rawArgs\<close>, whether the import of \<open>QtWidgets\<close> at the
  top of the module succeeded, and whether a \<open>QApplication\<close> instance exists.\<close>

record host_env =
  has_maya :: bool
  has_hdefereval :: bool
  has_nuke :: bool
  has_hiero :: bool
  has_bpy :: bool
  rawArgs :: "string list"
  qt_loaded :: bool
  qapp :: bool

definition connect_application_quit :: "host_env \<Rightarrow> world \<Rightarrow> world" where
  "connect_application_quit e w =
     (if qt_loaded e
      then (if qapp e then emit AboutToQuitConnect w else emit AtexitRegister w)
      else w)"

text \<open>The nested function \<open>threaded_wrapper(func, *args, **kwargs)\<close> of the installers.\<close>

definition threaded_wrapper :: "main_thread_api \<Rightarrow> call_shape \<Rightarrow> wrapper" where
  "threaded_wrapper api shape =
     \<lparr>signature = \<lparr>args = [''func''], varargs = Some ''args'', keywords' = Some ''kwargs''\<rparr>,
      kwonlyargs = [], annotations = [],
      body = ExecuteInMainThreadWithResult api shape\<rparr>"

text \<open>Each installer starts with its imports, which raise \<open>ImportError\<close> where the host
  module is absent; the Nuke and Hiero installers raise it themselves on the command
  line of the other product.\<close>

definition install_maya :: "host_env \<Rightarrow> world \<Rightarrow> (exn + unit) \<times> world" where
  "install_maya e w =
     (if \<not> has_maya e then (Inl ImportError, w)
      else
        (let w1 = emit (Stdout (''Setting up Pyblish QML in Maya'' @ newline)) w in
         case register_dispatch_wrapper (threaded_wrapper MayaUtils Unpacked) w1 of
           (Inl x, w2) \<Rightarrow> (Inl x, w2)
         | (Inr _, w2) \<Rightarrow>
             (let w3 = connect_application_quit e w2 in
              (Inr (), w3\<lparr>settings := (settings w3)
                 \<lparr>ContextLabel := ''Maya'', WindowTitle := ''Pyblish (Maya)''\<rparr>\<rparr>))))"

definition install_houdini :: "host_env \<Rightarrow> world \<Rightarrow> (exn + unit) \<times> world" where
  "install_houdini e w =
     (if \<not> has_hdefereval e then (Inl ImportError, w)
      else
        (let w1 = emit (Stdout (''Setting up Pyblish QML in Houdini'' @ newline)) w in
         case register_dispatch_wrapper (threaded_wrapper Hdefereval Unpacked) w1 of
           (Inl x, w2) \<Rightarrow> (Inl x, w2)
         | (Inr _, w2) \<Rightarrow>
             (let w3 = connect_application_quit e w2 in
              (Inr (), w3\<lparr>settings := (settings w3)
                 \<lparr>ContextLabel := ''Houdini'', WindowTitle := ''Pyblish (Houdini)''\<rparr>\<rparr>))))"

definition install_nuke :: "host_env \<Rightarrow> world \<Rightarrow> (exn + unit) \<times> world" where
  "install_nuke e w =
     (if \<not> has_nuke e then (Inl ImportError, w)
      else if ''--hiero'' \<in> set (rawArgs e) \<or> ''--studio'' \<in> set (rawArgs e)
      then (Inl ImportError, w)
      else
        (let w1 = emit (Stdout (''Setting up Pyblish QML in Nuke'' @ newline)) w in
         case register_dispatch_wrapper (threaded_wrapper NukeModule Packed) w1 of
           (Inl x, w2) \<Rightarrow> (Inl x, w2)
         | (Inr _, w2) \<Rightarrow>
             (let w3 = connect_application_quit e w2 in
              (Inr (), w3\<lparr>settings := (settings w3)
                 \<lparr>ContextLabel := ''Nuke'', WindowTitle := ''Pyblish (Nuke)''\<rparr>\<rparr>))))"

definition install_hiero :: "host_env \<Rightarrow> world \<Rightarrow> (exn + unit) \<times> world" where
  "install_hiero e w =
     (if \<not> has_hiero e then (Inl ImportError, w)
      else if \<not> has_nuke e then (Inl ImportError, w)
      else if ''--hiero'' \<notin> set (rawArgs e) then (Inl ImportError, w)
      else
        (let w1 = emit (Stdout (''Setting up Pyblish QML in Hiero'' @ newline)) w in
         case register_dispatch_wrapper (threaded_wrapper HieroCore Packed) w1 of
           (Inl x, w2) \<Rightarrow> (Inl x, w2)
         | (Inr _, w2) \<Rightarrow>
             (let w3 = connect_application_quit e w2 in
              (Inr (), w3\<lparr>settings := (settings w3)
                 \<lparr>ContextLabel := ''Hiero'', WindowTitle := ''Pyblish (Hiero)''\<rparr>\<rparr>))))"

definition install_blender :: "host_env \<Rightarrow> world \<Rightarrow> (exn + unit) \<times> world" where
  "install_blender e w =
     (if \<not> has_bpy e then (Inl ImportError, w)
      else
        (let w1 = emit (Stdout (''Setting up Pyblish QML in Blender'' @ newline)) w;
             w2 = connect_application_quit e w1
         in (Inr (), w2\<lparr>settings := (settings w2)
               \<lparr>ContextLabel := ''Blender'', WindowTitle := ''Pyblish (Blender)''\<rparr>\<rparr>)))"

text \<open>The loop of \<open>install_host\<close>: \<open>except ImportError: pass\<close> goes on to the next
  installer, \<open>else: break\<close> leaves the loop, any other exception leaves the function.\<close>

fun install_loop ::
    "(host_env \<Rightarrow> world \<Rightarrow> (exn + unit) \<times> world) list \<Rightarrow> host_env \<Rightarrow> world
      \<Rightarrow> (exn + unit) \<times> world" where
  "install_loop [] e w = (Inr (), w)"
| "install_loop (inst # rest) e w =
     (case inst e w of
        (Inl ImportError, w1) \<Rightarrow> install_loop rest e w1
      | (Inl x, w1) \<Rightarrow> (Inl x, w1)
      | (Inr _, w1) \<Rightarrow> (Inr (), w1))"

definition installers :: "(host_env \<Rightarrow> world \<Rightarrow> (exn + unit) \<times> world) list" where
  "installers = [install_maya, install_houdini, install_nuke, install_hiero, install_blender]"

definition install_host :: "host_env \<Rightarrow> world \<Rightarrow> (exn + unit) \<times> world" where
  "install_host e w = install_loop installers e w"

subsection \<open>Install and uninstall\<close>

definition uninstall :: "world \<Rightarrow> (exn + unit) \<times> world" where
  "uninstall w =
     (case uninstall_callbacks w of
        (Inl x, w1) \<Rightarrow> (Inl x, w1)
      | (Inr _, w1) \<Rightarrow>
          (Inr (), emit (Stdout (''Pyblish QML shutdown successful.'' @ newline)) w1))"

definition install :: "host_env \<Rightarrow> world \<Rightarrow> (exn + unit) \<times> world" where
  "install e w =
     (case (if truthy (dict_get (state w) ''installed'')
            then uninstall (emit (Stdout (''Already installed, uninstalling..'' @ newline)) w)
            else (Inr (), w)) of
        (Inl x, w1) \<Rightarrow> (Inl x, w1)
      | (Inr _, w1) \<Rightarrow>
          (let w2 = install_callbacks w1
           in case install_host e w2 of
                (Inl x, w3) \<Rightarrow> (Inl x, w3)
              | (Inr _, w3) \<Rightarrow>
                  (Inr (), w3\<lparr>state := (state w3)(''installed'' \<mapsto> VBool True)\<rparr>)))"

subsection \<open>Showing the GUI\<close>

text \<open>What the collaborators answer during one call of \<open>show\<close>: the interpreter (for
  the install and the splash screen), the call \<open>proxy.show\<close> on the stored server, whether
  the splash widget still exists when it is closed (it deletes itself on close), the
  constructors \<open>ipc.service.Service()\<close> and \<open>ipc.server.Server(service)\<close>, and the call
  \<open>proxy.show\<close> on the new server. \<open>None\<close> is a call that returns normally.\<close>

record show_env =
  interp :: host_env
  existing_show :: "exn option"
  splash_alive :: bool
  new_service :: "exn option"
  new_server :: "exn + server"
  new_show :: "exn option"

datatype splash = Splash

definition show_splash :: "host_env \<Rightarrow> world \<Rightarrow> splash option \<times> world" where
  "show_splash e w =
     (if qt_loaded e \<and> qapp e then (Some Splash, emit SplashShow w) else (None, w))"

text \<open>\<open>splash.close()\<close>: \<open>None\<close> has no such attribute, a deleted widget raises
  \<open>RuntimeError\<close>.\<close>

definition splash_close :: "bool \<Rightarrow> splash option \<Rightarrow> exn + unit" where
  "splash_close alive sp =
     (case sp of
        None \<Rightarrow> Inl AttributeError
      | Some _ \<Rightarrow> (if alive then Inr () else Inl RuntimeError))"

text \<open>The nested function \<open>on_shown\<close> of \<open>show\<close>: the \<open>try\<close> statement around
  \<open>splash.close()\<close>, then the deregistration; it returns \<open>None\<close>.\<close>

definition on_shown :: "bool \<Rightarrow> splash option \<Rightarrow> world \<Rightarrow> (exn + val) \<times> world" where
  "on_shown alive sp w =
     (case (case splash_close alive sp of
              Inl RuntimeError \<Rightarrow> (Inr (), w)
            | Inl AttributeError \<Rightarrow> (Inr (), w)
            | Inl x \<Rightarrow> (Inl x, w)
            | Inr _ \<Rightarrow> (Inr (), emit SplashClose w)) of
        (Inl x, w1) \<Rightarrow> (Inl x, w1)
      | (Inr _, w1) \<Rightarrow>
          (case deregister_callback ''pyblishQmlShown'' OnShown w1 of
             (Inl x, w2) \<Rightarrow> (Inl x, w2)
           | (Inr _, w2) \<Rightarrow> (Inr VNone, w2)))"

text \<open>Lines 94 to 105, "show existing GUI": \<open>Some r\<close> is the function left with \<open>r\<close>
  (returned or raised), \<open>None\<close> is control reaching line 107.\<close>

definition show_existing :: "show_env \<Rightarrow> world \<Rightarrow> (exn + val) option \<times> world" where
  "show_existing e w =
     (if truthy (dict_get (state w) ''currentServer'') then
        (case dict_item (state w) ''currentServer'' of
           Inl x \<Rightarrow> (Some (Inl x), w)
         | Inr server \<Rightarrow>
             (case existing_show e of
                None \<Rightarrow> (Some (Inr server), emit (ProxyShow server (settings w)) w)
              | Some IOError \<Rightarrow>
                  (case dict_pop (state w) ''currentServer'' of
                     Inl x \<Rightarrow> (Some (Inl x), w)
                   | Inr (v, d) \<Rightarrow> (None, w\<lparr>state := d\<rparr>))
              | Some x \<Rightarrow> (Some (Inl x), w)))
      else (None, w))"

text \<open>Lines 107 to 138: splash screen, the \<open>pyblishQmlShown\<close> callback, the new service
  and server, the window, and the reference to the server.\<close>

definition show_new :: "show_env \<Rightarrow> world \<Rightarrow> (exn + val) \<times> world" where
  "show_new e w =
     (case show_splash (interp e) w of (sp, w1) \<Rightarrow>
       (let w2 = register_callback ''pyblishQmlShown'' OnShown w1 in
        case new_service e of
          Some x \<Rightarrow> on_shown (splash_alive e) sp (emit PrintExc w2)
        | None \<Rightarrow>
            (let w3 = emit NewService w2 in
             case new_server e of
               Inl x \<Rightarrow> on_shown (splash_alive e) sp (emit PrintExc w3)
             | Inr server \<Rightarrow>
                 (let w4 = emit (NewServer server) w3 in
                  case new_show e of
                    Some x \<Rightarrow> (Inl x, w4)
                  | None \<Rightarrow>
                      (let w5 = emit (ProxyShow (VServer server) (settings w4)) w4;
                           w6 = w5\<lparr>state := (state w5)(''currentServer'' \<mapsto> VServer server)\<rparr>;
                           w7 = emit (Stdout (''Success. QML server available as pyblish_qml.api.current_server()'' @ newline)) w6
                       in (Inr (VServer server), w7))))))"

definition show_gui :: "show_env \<Rightarrow> world \<Rightarrow> (exn + val) \<times> world" where
  "show_gui e w =
     (case (if \<not> truthy (dict_get (state w) ''installed'') then install (interp e) w
            else (Inr (), w)) of
        (Inl x, w1) \<Rightarrow> (Inl x, w1)
      | (Inr _, w1) \<Rightarrow>
          (case show_existing e w1 of
             (Some r, w2) \<Rightarrow> (r, w2)
           | (None, w2) \<Rightarrow> show_new e w2))"

subsection \<open>Host exit\<close>

text \<open>\<open>_state["currentServer"].popen.kill()\<close>: the subscript raises \<open>KeyError\<close> on a
  missing key, a value that is no server has no \<open>popen\<close>, and \<open>kill\<close> answers as its
  parameter says.\<close>

definition on_application_quit :: "exn option \<Rightarrow> world \<Rightarrow> (exn + unit) \<times> world" where
  "on_application_quit kill w =
     (case (case dict_item (state w) ''currentServer'' of
              Inl x \<Rightarrow> (Inl x, w)
            | Inr (VServer s) \<Rightarrow>
                (case kill of None \<Rightarrow> (Inr (), emit (Kill s) w) | Some x \<Rightarrow> (Inl x, w))
            | Inr _ \<Rightarrow> (Inl AttributeError, w)) of
        (Inl KeyError, w1) \<Rightarrow> (Inr (), w1)
      | (Inl OSError, w1) \<Rightarrow> (Inr (), w1)
      | r \<Rightarrow> r)"

subsection \<open>Sequences of calls\<close>

text \<open>One call of a public function of the module, or the host's exit, with what the
  collaborators answer during it. A call that raises leaves the world as it was when
  the exception left the function.\<close>

datatype call =
  CallRegisterDispatchWrapper wrapper
  | CallDeregisterDispatchWrapper
  | CallInstall host_env
  | CallUninstall
  | CallShow show_env
  | CallInstallCallbacks
  | CallUninstallCallbacks
  | CallRegisterPythonExecutable "string \<Rightarrow> bool" string
  | CallRegisterPyqt5 string
  | CallInstallHost host_env
  | HostQuit "exn option"

fun step :: "call \<Rightarrow> world \<Rightarrow> world" where
  "step (CallRegisterDispatchWrapper wr) w = snd (register_dispatch_wrapper wr w)"
| "step CallDeregisterDispatchWrapper w = snd (deregister_dispatch_wrapper w)"
| "step (CallInstall e) w = snd (install e w)"
| "step CallUninstall w = snd (uninstall w)"
| "step (CallShow e) w = snd (show_gui e w)"
| "step CallInstallCallbacks w = install_callbacks w"
| "step CallUninstallCallbacks w = snd (uninstall_callbacks w)"
| "step (CallRegisterPythonExecutable isfile path) w = snd (register_python_executable isfile path w)"
| "step (CallRegisterPyqt5 path) w = register_pyqt5 path w"
| "step (CallInstallHost e) w = snd (install_host e w)"
| "step (HostQuit kill) w = snd (on_application_quit kill w)"

fun run :: "call list \<Rightarrow> world \<Rightarrow> world" where
  "run [] w = w"
| "run (c # cs) w = run cs (step c w)"

subsection \<open>Example worlds\<close>

text \<open>The inputs of the worked examples: a world in which nothing has happened yet, with
  an empty dictionary and no callback registered, and two interpreters, one inside Hiero
  and one inside Maya.\<close>

definition fresh_world :: "ui_settings \<Rightarrow> world" where
  "fresh_world s = \<lparr>state = Map.empty, settings = s, trace = [], callbacks = Map.empty\<rparr>"

definition default_settings :: ui_settings where
  "default_settings = \<lparr>ContextLabel = ''World'', WindowTitle = ''Pyblish''\<rparr>"

definition hiero_session :: host_env where
  "hiero_session =
     \<lparr>has_maya = False, has_hdefereval = False, has_nuke = True, has_hiero = True,
      has_bpy = False, rawArgs = [''nuke'', ''--hiero''], qt_loaded = True, qapp = True\<rparr>"

definition maya_session :: host_env where
  "maya_session =
     \<lparr>has_maya = True, has_hdefereval = False, has_nuke = False, has_hiero = False,
      has_bpy = False, rawArgs = [], qt_loaded = True, qapp = True\<rparr>"

text \<open>Three calls of \<open>show\<close> inside Maya: the GUI process starts; it fails to start;
  the stored server is gone and a new one starts.\<close>

definition launch_ok :: show_env where
  "launch_ok = \<lparr>interp = maya_session, existing_show = None, splash_alive = True,
     new_service = None, new_server = Inr (Server 1), new_show = None\<rparr>"

definition launch_fails :: show_env where
  "launch_fails = \<lparr>interp = maya_session, existing_show = None, splash_alive = True,
     new_service = None, new_server = Inl OSError, new_show = None\<rparr>"

definition stale_relaunch :: show_env where
  "stale_relaunch = \<lparr>interp = maya_session, existing_show = Some IOError, splash_alive = False,
     new_service = None, new_server = Inr (Server 2), new_show = None\<rparr>"

text \<open>The world after the first of these calls in a fresh world.\<close>

definition maya_running :: world where
  "maya_running =
      \<lparr>state = [''dispatchWrapper'' \<mapsto> VWrapper (threaded_wrapper MayaUtils Unpacked),
                ''installed'' \<mapsto> VBool True, ''currentServer'' \<mapsto> VServer (Server 1)],
       settings = \<lparr>ContextLabel = ''Maya'', WindowTitle = ''Pyblish (Maya)''\<rparr>,
       trace = [RegisterCallback ''instanceToggled'' ToggleInstance,
          RegisterCallback ''pluginToggled'' TogglePlugin,
          Stdout (''Setting up Pyblish QML in Maya'' @ newline), AboutToQuitConnect, SplashShow,
          RegisterCallback ''pyblishQmlShown'' OnShown, NewService, NewServer (Server 1),
          ProxyShow (VServer (Server 1)) \<lparr>ContextLabel = ''Maya'', WindowTitle = ''Pyblish (Maya)''\<rparr>,
          Stdout (''Success. QML server available as pyblish_qml.api.current_server()'' @ newline)],
       callbacks = [''instanceToggled'' \<mapsto> [ToggleInstance], ''pluginToggled'' \<mapsto> [TogglePlugin],
                    ''pyblishQmlShown'' \<mapsto> [OnShown]]\<rparr>"




section \<open>Properties\<close>

subsection \<open>Dispatch wrapper and executable registries\<close>

lemma register_threaded_wrapper:
  "register_dispatch_wrapper (threaded_wrapper api shape) w =
     (Inr (), w\<lparr>state := (state w)(''dispatchWrapper'' \<mapsto> VWrapper (threaded_wrapper api shape))\<rparr>)"
  by (simp add: register_dispatch_wrapper_def getargspec_def threaded_wrapper_def)




text \<open>
  Claim C9. With no entry under \<open>"dispatchWrapper"\<close>, \<open>dispatch_wrapper()\<close> returns
  \<open>None\<close> while \<open>deregister_dispatch_wrapper()\<close> raises \<open>KeyError\<close> and changes nothing.
  After a registration that returned normally, \<open>deregister_dispatch_wrapper()\<close> returns
  normally and removes that entry and nothing else.
\<close>

theorem deregister_dispatch_wrapper_unregistered:
  "(state w ''dispatchWrapper'' = None \<longrightarrow>
      dispatch_wrapper w = VNone \<and> deregister_dispatch_wrapper w = (Inl KeyError, w))
   \<and> (fst (register_dispatch_wrapper wr w) = Inr () \<longrightarrow>
        fst (deregister_dispatch_wrapper (snd (register_dispatch_wrapper wr w))) = Inr ()
        \<and> state (snd (deregister_dispatch_wrapper (snd (register_dispatch_wrapper wr w))))
            = (state w)(''dispatchWrapper'' := None)
        \<and> settings (snd (deregister_dispatch_wrapper (snd (register_dispatch_wrapper wr w)))) = settings w
        \<and> trace (snd (deregister_dispatch_wrapper (snd (register_dispatch_wrapper wr w)))) = trace w)"
  by (auto simp add: register_dispatch_wrapper_def getargspec_def deregister_dispatch_wrapper_def
        dispatch_wrapper_def dict_get_def dict_pop_def split: if_splits)

theorem deregister_dispatch_wrapper_unregistered_witness:
  "dispatch_wrapper (fresh_world default_settings) = VNone
   \<and> deregister_dispatch_wrapper (fresh_world default_settings)
       = (Inl KeyError, fresh_world default_settings)
   \<and> state (snd (deregister_dispatch_wrapper (snd (register_dispatch_wrapper
        (threaded_wrapper Hdefereval Unpacked) (fresh_world default_settings))))) = Map.empty"
  using deregister_dispatch_wrapper_unregistered
          [of "fresh_world default_settings" "threaded_wrapper Hdefereval Unpacked"]
  by (simp add: fresh_world_def register_threaded_wrapper)

text \<open>
  Claim C10. \<open>register_python_executable(path)\<close> raises \<open>AssertionError\<close> and leaves
  the world as it was when \<open>path\<close> is not a file. When it is a file the call returns
  normally and \<open>registered_python_executable()\<close> then returns that path. With no entry
  under \<open>"pythonExecutable"\<close> the lookup returns \<open>None\<close>.
\<close>

theorem register_python_executable_roundtrip:
  "(\<not> isfile path \<longrightarrow> register_python_executable isfile path w = (Inl AssertionError, w))
   \<and> (isfile path \<longrightarrow>
        fst (register_python_executable isfile path w) = Inr ()
        \<and> registered_python_executable (snd (register_python_executable isfile path w)) = VStr path)
   \<and> (state w ''pythonExecutable'' = None \<longrightarrow> registered_python_executable w = VNone)"
  by (simp add: register_python_executable_def registered_python_executable_def dict_get_def)

theorem register_python_executable_roundtrip_witness:
  "register_python_executable (\<lambda>p. p = ''/usr/bin/python'') ''/tmp'' (fresh_world default_settings)
     = (Inl AssertionError, fresh_world default_settings)
   \<and> registered_python_executable (snd (register_python_executable
        (\<lambda>p. p = ''/usr/bin/python'') ''/usr/bin/python'' (fresh_world default_settings)))
       = VStr ''/usr/bin/python''
   \<and> registered_python_executable (fresh_world default_settings) = VNone"
  using register_python_executable_roundtrip
          [of "\<lambda>p. p = ''/usr/bin/python''" "''/tmp''" "fresh_world default_settings"]
        register_python_executable_roundtrip
          [of "\<lambda>p. p = ''/usr/bin/python''" "''/usr/bin/python''" "fresh_world default_settings"]
  by (simp add: fresh_world_def)

subsection \<open>Toggling callbacks\<close>

text \<open>
  Claim C6. \<open>_toggle_instance(instance, new_value, old_value)\<close> sets
  \<open>instance.data["publish"]\<close> to \<open>new_value\<close>, keeps every other key of \<open>data\<close> and the
  rest of the instance, and does not depend on \<open>old_value\<close>.
  \<open>_toggle_plugin(plugin, new_value, old_value)\<close> sets \<open>plugin.active\<close> to \<open>new_value\<close>,
  keeps the rest of the plug-in, and does not depend on \<open>old_value\<close>.
\<close>

theorem toggle_frame:
  "data (toggle_instance inst new_value old_value) ''publish'' = Some new_value
   \<and> (\<forall>k. k \<noteq> ''publish'' \<longrightarrow> data (toggle_instance inst new_value old_value) k = data inst k)
   \<and> instance_obj.more (toggle_instance inst new_value old_value) = instance_obj.more inst
   \<and> toggle_instance inst new_value old_value = toggle_instance inst new_value other
   \<and> active (toggle_plugin plug new_value old_value) = new_value
   \<and> plugin_obj.more (toggle_plugin plug new_value old_value) = plugin_obj.more plug
   \<and> toggle_plugin plug new_value old_value = toggle_plugin plug new_value other"
  by (simp add: toggle_instance_def toggle_plugin_def)

theorem toggle_frame_witness:
  "data (toggle_instance \<lparr>data = [''family'' \<mapsto> VStr ''model'', ''publish'' \<mapsto> VBool True]\<rparr>
           (VBool False) (VBool True)) ''publish'' = Some (VBool False)
   \<and> data (toggle_instance \<lparr>data = [''family'' \<mapsto> VStr ''model'', ''publish'' \<mapsto> VBool True]\<rparr>
           (VBool False) (VBool True)) ''family'' = Some (VStr ''model'')
   \<and> active (toggle_plugin \<lparr>active = VBool True\<rparr> (VBool False) (VBool True)) = VBool False"
  using toggle_frame [of "\<lparr>data = [''family'' \<mapsto> VStr ''model'', ''publish'' \<mapsto> VBool True]\<rparr>"
          "VBool False" "VBool True" "VBool True" "\<lparr>active = VBool True\<rparr>"]
  by simp

subsection \<open>Host exit\<close>

text \<open>
  Claim C8. With a server stored under \<open>"currentServer"\<close> whose \<open>kill\<close> succeeds,
  \<open>_on_application_quit\<close> kills that server's process and returns normally. It also
  returns normally, with no effect, when the key is missing (\<open>KeyError\<close>) and when \<open>kill\<close>
  raises \<open>OSError\<close>. Where the import of \<open>QtWidgets\<close> succeeded,
  \<open>_connect_application_quit\<close> hooks the function to the host's exit: to the
  application's \<open>aboutToQuit\<close> signal if there is an application, through \<open>atexit\<close> if not.
\<close>

theorem on_application_quit_safe:
  "(state w ''currentServer'' = Some (VServer s) \<and> kill = None \<longrightarrow>
      on_application_quit kill w = (Inr (), emit (Kill s) w))
   \<and> (state w ''currentServer'' = None \<longrightarrow> on_application_quit kill w = (Inr (), w))
   \<and> (state w ''currentServer'' = Some (VServer s) \<and> kill = Some OSError \<longrightarrow>
      on_application_quit kill w = (Inr (), w))
   \<and> (qt_loaded e \<longrightarrow>
      connect_application_quit e w
        = emit (if qapp e then AboutToQuitConnect else AtexitRegister) w)"
  by (simp add: on_application_quit_def dict_item_def connect_application_quit_def)

theorem on_application_quit_safe_witness:
  "on_application_quit None ((fresh_world default_settings)\<lparr>state := [''currentServer'' \<mapsto> VServer (Server 7)]\<rparr>)
     = (Inr (), (fresh_world default_settings)
         \<lparr>state := [''currentServer'' \<mapsto> VServer (Server 7)], trace := [Kill (Server 7)]\<rparr>)
   \<and> on_application_quit None (fresh_world default_settings) = (Inr (), fresh_world default_settings)
   \<and> on_application_quit (Some OSError)
        ((fresh_world default_settings)\<lparr>state := [''currentServer'' \<mapsto> VServer (Server 7)]\<rparr>)
     = (Inr (), (fresh_world default_settings)\<lparr>state := [''currentServer'' \<mapsto> VServer (Server 7)]\<rparr>)
   \<and> trace (connect_application_quit maya_session (fresh_world default_settings))
       = [AboutToQuitConnect]"
  using on_application_quit_safe
          [of "(fresh_world default_settings)\<lparr>state := [''currentServer'' \<mapsto> VServer (Server 7)]\<rparr>"
              "Server 7" None maya_session]
        on_application_quit_safe [of "fresh_world default_settings" "Server 7" None maya_session]
        on_application_quit_safe
          [of "(fresh_world default_settings)\<lparr>state := [''currentServer'' \<mapsto> VServer (Server 7)]\<rparr>"
              "Server 7" "Some OSError" maya_session]
  by (simp add: fresh_world_def emit_def maya_session_def)

subsection \<open>Host installers\<close>

lemmas installer_defs =
  install_maya_def install_houdini_def install_nuke_def install_hiero_def install_blender_def

lemma installer_import_error:
  "inst \<in> set installers \<Longrightarrow> fst (inst e w) = Inl ImportError \<Longrightarrow> snd (inst e w) = w"
  by (auto simp add: installers_def installer_defs register_threaded_wrapper Let_def split: if_splits)

lemma installer_result:
  "inst \<in> set installers \<Longrightarrow> fst (inst e w) = Inl ImportError \<or> fst (inst e w) = Inr ()"
  by (auto simp add: installers_def installer_defs register_threaded_wrapper Let_def split: if_splits)

lemma install_loop_find:
  assumes "\<And>inst. inst \<in> set xs \<Longrightarrow> fst (inst e w) = Inl ImportError \<Longrightarrow> snd (inst e w) = w"
  shows "install_loop xs e w =
     (case find (\<lambda>inst. fst (inst e w) \<noteq> Inl ImportError) xs of
        None \<Rightarrow> (Inr (), w)
      | Some inst \<Rightarrow> inst e w)"
  using assms
proof (induction xs)
  case Nil
  then show ?case by simp
next
  case (Cons inst rest)
  show ?case
  proof (cases "fst (inst e w) = Inl ImportError")
    case True
    then have "snd (inst e w) = w" using Cons.prems by simp
    with True have "inst e w = (Inl ImportError, w)" by (metis prod.collapse)
    then show ?thesis using Cons by simp
  next
    case False
    then show ?thesis
      by (cases "inst e w") (auto split: sum.splits exn.splits)
  qed
qed

lemma install_host_find:
  "install_host e w =
     (case find (\<lambda>inst. fst (inst e w) \<noteq> Inl ImportError) installers of
        None \<Rightarrow> (Inr (), w)
      | Some inst \<Rightarrow> inst e w)"
  unfolding install_host_def by (rule install_loop_find) (rule installer_import_error)

lemma install_host_cases:
  "install_host e w = (Inr (), w) \<or> (\<exists>inst \<in> set installers. install_host e w = inst e w)"
proof (cases "find (\<lambda>inst. fst (inst e w) \<noteq> Inl ImportError) installers")
  case None
  then show ?thesis by (simp add: install_host_find)
next
  case (Some inst)
  then have "inst \<in> set installers" by (auto simp add: find_Some_iff)
  then show ?thesis using Some by (auto simp add: install_host_find)
qed

lemma install_host_ok: "fst (install_host e w) = Inr ()"
proof (cases "find (\<lambda>inst. fst (inst e w) \<noteq> Inl ImportError) installers")
  case None
  then show ?thesis by (simp add: install_host_find)
next
  case (Some inst)
  then have "inst \<in> set installers" "fst (inst e w) \<noteq> Inl ImportError"
    by (auto simp add: find_Some_iff)
  then have "fst (inst e w) = Inr ()" using installer_result by blast
  then show ?thesis using Some by (simp add: install_host_find)
qed

text \<open>
  Claim C2. \<open>install_host()\<close> runs the first installer, in the order Maya, Houdini,
  Nuke, Hiero, Blender, that does not raise \<open>ImportError\<close>, and nothing after it: its
  result is that installer's result, or the unchanged world when all five raise
  \<open>ImportError\<close>. An installer that raises \<open>ImportError\<close> has changed nothing, and
  \<open>install_host\<close> itself returns normally, so no \<open>ImportError\<close> leaves it.
\<close>

theorem install_host_first_match:
  "install_host e w =
     (case find (\<lambda>inst. fst (inst e w) \<noteq> Inl ImportError)
             [install_maya, install_houdini, install_nuke, install_hiero, install_blender] of
        None \<Rightarrow> (Inr (), w)
      | Some inst \<Rightarrow> inst e w)
   \<and> fst (install_host e w) = Inr ()
   \<and> (\<forall>inst \<in> set installers. fst (inst e w) = Inl ImportError \<longrightarrow> snd (inst e w) = w)"
  using install_host_find [of e w] install_host_ok [of e w] installer_import_error
  by (simp add: installers_def)

theorem install_host_first_match_witness:
  "install_host hiero_session (fresh_world default_settings)
     = install_hiero hiero_session (fresh_world default_settings)
   \<and> fst (install_nuke hiero_session (fresh_world default_settings)) = Inl ImportError
   \<and> snd (install_nuke hiero_session (fresh_world default_settings)) = fresh_world default_settings
   \<and> trace (snd (install_host hiero_session (fresh_world default_settings)))
       = [Stdout (''Setting up Pyblish QML in Hiero'' @ newline), AboutToQuitConnect]"
  using install_host_first_match [of hiero_session "fresh_world default_settings"]
  by (simp add: installers_def installer_defs hiero_session_def register_threaded_wrapper
        connect_application_quit_def emit_def fresh_world_def Let_def)

text \<open>What an installer may change: the entry under \<open>"dispatchWrapper"\<close>, and the
  trace by messages and the quit hook.\<close>

lemma installer_state:
  "inst \<in> set installers \<Longrightarrow> k \<noteq> ''dispatchWrapper'' \<Longrightarrow> state (snd (inst e w)) k = state w k"
  by (auto simp add: installers_def installer_defs register_threaded_wrapper Let_def emit_def
        connect_application_quit_def split: if_splits)

lemma installer_wrapper:
  "inst \<in> set installers \<Longrightarrow>
     state (snd (inst e w)) ''dispatchWrapper'' = state w ''dispatchWrapper''
     \<or> (\<exists>wr. state (snd (inst e w)) ''dispatchWrapper'' = Some (VWrapper wr))"
  by (auto simp add: installers_def installer_defs register_threaded_wrapper Let_def emit_def
        connect_application_quit_def split: if_splits)

lemma installer_trace:
  "inst \<in> set installers \<Longrightarrow>
     \<exists>H. trace (snd (inst e w)) = trace w @ H
       \<and> (\<forall>ev \<in> set H. (\<exists>m. ev = Stdout m) \<or> ev = AboutToQuitConnect \<or> ev = AtexitRegister)"
  by (auto simp add: installers_def installer_defs register_threaded_wrapper Let_def emit_def
        connect_application_quit_def split: if_splits)

lemma install_host_state:
  "k \<noteq> ''dispatchWrapper'' \<Longrightarrow> state (snd (install_host e w)) k = state w k"
  using install_host_cases [of e w] installer_state by (metis snd_conv)

lemma install_host_wrapper:
  "state (snd (install_host e w)) ''dispatchWrapper'' = state w ''dispatchWrapper''
     \<or> (\<exists>wr. state (snd (install_host e w)) ''dispatchWrapper'' = Some (VWrapper wr))"
  using install_host_cases [of e w] installer_wrapper by (metis snd_conv)

lemma install_host_trace:
  "\<exists>H. trace (snd (install_host e w)) = trace w @ H
     \<and> (\<forall>ev \<in> set H. (\<exists>m. ev = Stdout m) \<or> ev = AboutToQuitConnect \<or> ev = AtexitRegister)"
proof -
  from install_host_cases [of e w] show ?thesis
  proof
    assume "install_host e w = (Inr (), w)"
    then show ?thesis by simp
  next
    assume "\<exists>inst \<in> set installers. install_host e w = inst e w"
    then obtain inst where "inst \<in> set installers" "install_host e w = inst e w" by blast
    then show ?thesis using installer_trace [of inst e w] by simp
  qed
qed

lemma installer_success:
  "(fst (install_maya e w) = Inr ()) = has_maya e"
  "(fst (install_houdini e w) = Inr ()) = has_hdefereval e"
  "(fst (install_nuke e w) = Inr ())
     = (has_nuke e \<and> ''--hiero'' \<notin> set (rawArgs e) \<and> ''--studio'' \<notin> set (rawArgs e))"
  "(fst (install_hiero e w) = Inr ())
     = (has_hiero e \<and> has_nuke e \<and> ''--hiero'' \<in> set (rawArgs e))"
  by (auto simp add: installer_defs register_threaded_wrapper Let_def)

lemma installer_registers:
  "fst (install_maya e w) = Inr () \<Longrightarrow>
     state (snd (install_maya e w)) ''dispatchWrapper'' = Some (VWrapper (threaded_wrapper MayaUtils Unpacked))"
  "fst (install_houdini e w) = Inr () \<Longrightarrow>
     state (snd (install_houdini e w)) ''dispatchWrapper'' = Some (VWrapper (threaded_wrapper Hdefereval Unpacked))"
  "fst (install_nuke e w) = Inr () \<Longrightarrow>
     state (snd (install_nuke e w)) ''dispatchWrapper'' = Some (VWrapper (threaded_wrapper NukeModule Packed))"
  "fst (install_hiero e w) = Inr () \<Longrightarrow>
     state (snd (install_hiero e w)) ''dispatchWrapper'' = Some (VWrapper (threaded_wrapper HieroCore Packed))"
  by (auto simp add: installer_defs register_threaded_wrapper Let_def emit_def
        connect_application_quit_def split: if_splits)

lemma install_blender_state: "state (snd (install_blender e w)) = state w"
  by (simp add: install_blender_def Let_def emit_def connect_application_quit_def)

text \<open>
  Claim C5. Each of the Maya, Houdini, Nuke and Hiero installers, whenever it returns
  normally (which it does exactly when its imports and command-line test pass),
  leaves under \<open>"dispatchWrapper"\<close> its \<open>threaded_wrapper\<close>, whose body is the call of
  the host's \<open>executeInMainThreadWithResult\<close>. The Blender installer, the only other
  one, leaves the dictionary as it was.
\<close>

theorem installers_dispatch_wrapper:
  "(fst (install_maya e w) = Inr ()) = has_maya e
   \<and> (fst (install_maya e w) = Inr () \<longrightarrow>
        dispatch_wrapper (snd (install_maya e w)) = VWrapper (threaded_wrapper MayaUtils Unpacked))
   \<and> (fst (install_houdini e w) = Inr ()) = has_hdefereval e
   \<and> (fst (install_houdini e w) = Inr () \<longrightarrow>
        dispatch_wrapper (snd (install_houdini e w)) = VWrapper (threaded_wrapper Hdefereval Unpacked))
   \<and> (fst (install_nuke e w) = Inr ())
        = (has_nuke e \<and> ''--hiero'' \<notin> set (rawArgs e) \<and> ''--studio'' \<notin> set (rawArgs e))
   \<and> (fst (install_nuke e w) = Inr () \<longrightarrow>
        dispatch_wrapper (snd (install_nuke e w)) = VWrapper (threaded_wrapper NukeModule Packed))
   \<and> (fst (install_hiero e w) = Inr ())
        = (has_hiero e \<and> has_nuke e \<and> ''--hiero'' \<in> set (rawArgs e))
   \<and> (fst (install_hiero e w) = Inr () \<longrightarrow>
        dispatch_wrapper (snd (install_hiero e w)) = VWrapper (threaded_wrapper HieroCore Packed))
   \<and> body (threaded_wrapper api shape) = ExecuteInMainThreadWithResult api shape
   \<and> state (snd (install_blender e w)) = state w
   \<and> installers = [install_maya, install_houdini, install_nuke, install_hiero, install_blender]"
  using installer_success [of e w] installer_registers [of e w] install_blender_state [of e w]
  by (simp add: dispatch_wrapper_def dict_get_def threaded_wrapper_def installers_def)

theorem installers_dispatch_wrapper_witness:
  "fst (install_maya maya_session (fresh_world default_settings)) = Inr ()
   \<and> dispatch_wrapper (snd (install_maya maya_session (fresh_world default_settings)))
       = VWrapper (threaded_wrapper MayaUtils Unpacked)
   \<and> fst (install_hiero hiero_session (fresh_world default_settings)) = Inr ()
   \<and> dispatch_wrapper (snd (install_hiero hiero_session (fresh_world default_settings)))
       = VWrapper (threaded_wrapper HieroCore Packed)
   \<and> fst (install_nuke hiero_session (fresh_world default_settings)) \<noteq> Inr ()"
  using installers_dispatch_wrapper [of maya_session "fresh_world default_settings"]
        installers_dispatch_wrapper [of hiero_session "fresh_world default_settings"]
  by (simp add: maya_session_def hiero_session_def)

subsection \<open>Callbacks\<close>

lemma register_callback_proj:
  "state (register_callback sg cb w) = state w"
  "settings (register_callback sg cb w) = settings w"
  "trace (register_callback sg cb w) = trace w @ [RegisterCallback sg cb]"
  by (simp_all add: register_callback_def emit_def)

lemma install_callbacks_proj:
  "state (install_callbacks w) = state w"
  "settings (install_callbacks w) = settings w"
  "trace (install_callbacks w)
     = trace w @ [RegisterCallback ''instanceToggled'' ToggleInstance,
                  RegisterCallback ''pluginToggled'' TogglePlugin]"
  by (simp_all add: install_callbacks_def register_callback_proj)

lemma deregister_callback_state: "state (snd (deregister_callback sg cb w)) = state w"
  by (simp add: deregister_callback_def emit_def split: option.splits)

lemma uninstall_callbacks_state: "state (snd (uninstall_callbacks w)) = state w"
proof (cases "deregister_callback ''instanceToggled'' ToggleInstance w")
  case (Pair r w1)
  then have s: "state w1 = state w"
    using deregister_callback_state [of "''instanceToggled''" ToggleInstance w] by simp
  show ?thesis
  proof (cases r)
    case (Inl x)
    then show ?thesis using Pair s by (simp add: uninstall_callbacks_def)
  next
    case (Inr u)
    then show ?thesis using Pair s
      by (simp add: uninstall_callbacks_def deregister_callback_state)
  qed
qed

lemma uninstall_state: "state (snd (uninstall w)) = state w"
proof (cases "uninstall_callbacks w")
  case (Pair r w1)
  then have s: "state w1 = state w" using uninstall_callbacks_state [of w] by simp
  show ?thesis
    using Pair s by (cases r) (simp_all add: uninstall_def emit_def)
qed


subsection \<open>Install\<close>

lemma install_host_case:
  "(case install_host e w of (r, w') \<Rightarrow> f r w') = f (Inr ()) (snd (install_host e w))"
  using install_host_ok [of e w] by (cases "install_host e w") simp

lemma install_fresh_eq:
  assumes "\<not> truthy (dict_get (state w) ''installed'')"
  shows "install e w =
     (Inr (), (snd (install_host e (install_callbacks w)))
        \<lparr>state := (state (snd (install_host e (install_callbacks w))))(''installed'' \<mapsto> VBool True)\<rparr>)"
  using assms by (simp add: install_def Let_def install_host_case)

lemma install_again_eq:
  assumes "truthy (dict_get (state w) ''installed'')"
    and "uninstall (emit (Stdout (''Already installed, uninstalling..'' @ newline)) w) = (Inr (), w1)"
  shows "install e w =
     (Inr (), (snd (install_host e (install_callbacks w1)))
        \<lparr>state := (state (snd (install_host e (install_callbacks w1))))(''installed'' \<mapsto> VBool True)\<rparr>)"
  using assms by (simp add: install_def Let_def install_host_case)

lemma install_again_raises:
  assumes "truthy (dict_get (state w) ''installed'')"
    and "uninstall (emit (Stdout (''Already installed, uninstalling..'' @ newline)) w) = (Inl x, w1)"
  shows "install e w = (Inl x, w1)"
  using assms by (simp add: install_def)

text \<open>Either \<open>install\<close> raises with the dictionary as it was, or it returns normally
  and the dictionary is that of \<open>install_host\<close>, run in a world with the same dictionary,
  with \<open>"installed"\<close> set.\<close>

lemma install_outcome:
  "(\<exists>x. fst (install e w) = Inl x) \<and> state (snd (install e w)) = state w
   \<or> (\<exists>w2. state w2 = state w \<and> fst (install e w) = Inr ()
         \<and> state (snd (install e w)) = (state (snd (install_host e w2)))(''installed'' \<mapsto> VBool True))"
proof (cases "truthy (dict_get (state w) ''installed'')")
  case False
  have "state (install_callbacks w) = state w" by (rule install_callbacks_proj)
  then show ?thesis using install_fresh_eq [OF False, of e] by auto
next
  case True
  obtain r w1 where u: "uninstall (emit (Stdout (''Already installed, uninstalling..'' @ newline)) w) = (r, w1)"
    by (cases "uninstall (emit (Stdout (''Already installed, uninstalling..'' @ newline)) w)")
  have s: "state w1 = state w"
    using uninstall_state [of "emit (Stdout (''Already installed, uninstalling..'' @ newline)) w"] u
    by (simp add: emit_def)
  show ?thesis
  proof (cases r)
    case (Inl x)
    then show ?thesis using install_again_raises [OF True, of x w1 e] u s by simp
  next
    case (Inr y)
    then have "uninstall (emit (Stdout (''Already installed, uninstalling..'' @ newline)) w) = (Inr (), w1)"
      using u by simp
    from install_again_eq [OF True this, of e]
    have "fst (install e w) = Inr ()"
      "state (snd (install e w))
         = (state (snd (install_host e (install_callbacks w1))))(''installed'' \<mapsto> VBool True)"
      by simp_all
    moreover have "state (install_callbacks w1) = state w"
      using s by (simp add: install_callbacks_proj)
    ultimately show ?thesis by blast
  qed
qed

lemma install_state:
  assumes "k \<noteq> ''dispatchWrapper''" "k \<noteq> ''installed''"
  shows "state (snd (install e w)) k = state w k"
  using install_outcome [of e w]
proof
  assume "(\<exists>x. fst (install e w) = Inl x) \<and> state (snd (install e w)) = state w"
  then show ?thesis by simp
next
  assume "\<exists>w2. state w2 = state w \<and> fst (install e w) = Inr ()
         \<and> state (snd (install e w)) = (state (snd (install_host e w2)))(''installed'' \<mapsto> VBool True)"
  then obtain w2 where "state w2 = state w"
    "state (snd (install e w)) = (state (snd (install_host e w2)))(''installed'' \<mapsto> VBool True)"
    by blast
  then show ?thesis using assms install_host_state [of k e w2] by simp
qed


lemma install_fresh_ok:
  "\<not> truthy (dict_get (state w) ''installed'') \<Longrightarrow> fst (install e w) = Inr ()"
  by (simp add: install_fresh_eq)

lemma install_trace_fresh:
  assumes "\<not> truthy (dict_get (state w) ''installed'')"
  shows "\<exists>H. trace (snd (install e w)) = trace w
          @ [RegisterCallback ''instanceToggled'' ToggleInstance,
             RegisterCallback ''pluginToggled'' TogglePlugin] @ H
       \<and> trace (snd (install_host e (install_callbacks w))) = trace (install_callbacks w) @ H
       \<and> (\<forall>ev \<in> set H. (\<exists>m. ev = Stdout m) \<or> ev = AboutToQuitConnect \<or> ev = AtexitRegister)"
proof -
  obtain H where H: "trace (snd (install_host e (install_callbacks w))) = trace (install_callbacks w) @ H"
    "\<forall>ev \<in> set H. (\<exists>m. ev = Stdout m) \<or> ev = AboutToQuitConnect \<or> ev = AtexitRegister"
    using install_host_trace by blast
  have "trace (snd (install e w)) = trace (snd (install_host e (install_callbacks w)))"
    using assms by (simp add: install_fresh_eq)
  then show ?thesis using H by (auto simp add: install_callbacks_proj)
qed


lemma install_trace_fresh_any:
  assumes "\<not> truthy (dict_get (state w) ''installed'')"
  shows "\<exists>H. trace (snd (install e w)) = trace w @ H
     \<and> NewService \<notin> set H \<and> (\<forall>s. NewServer s \<notin> set H) \<and> (\<forall>v u. ProxyShow v u \<notin> set H)"
proof -
  from install_trace_fresh [OF assms, of e] obtain H where
    H: "trace (snd (install e w)) = trace w
          @ [RegisterCallback ''instanceToggled'' ToggleInstance,
             RegisterCallback ''pluginToggled'' TogglePlugin] @ H"
    "\<forall>ev \<in> set H. (\<exists>m. ev = Stdout m) \<or> ev = AboutToQuitConnect \<or> ev = AtexitRegister"
    by blast
  show ?thesis
    by (rule exI [of _ "[RegisterCallback ''instanceToggled'' ToggleInstance,
             RegisterCallback ''pluginToggled'' TogglePlugin] @ H"]) (use H in auto)
qed

subsection \<open>Showing the GUI\<close>

lemma show_gui_unfold:
  "show_gui e w =
     (case show_existing e
             (if \<not> truthy (dict_get (state w) ''installed'') then snd (install (interp e) w) else w) of
        (Some r, w2) \<Rightarrow> (r, w2)
      | (None, w2) \<Rightarrow> show_new e w2)"
proof (cases "truthy (dict_get (state w) ''installed'')")
  case True
  then show ?thesis by (simp add: show_gui_def)
next
  case False
  then show ?thesis by (simp add: show_gui_def install_fresh_eq)
qed

lemma show_new_failure:
  assumes "new_service e \<noteq> None \<or> (\<exists>x. new_server e = Inl x)"
  shows "fst (show_new e w) = Inr VNone"
    and "state (snd (show_new e w)) = state w"
    and "trace (snd (show_new e w)) = trace w
        @ (if qt_loaded (interp e) \<and> qapp (interp e) then [SplashShow] else [])
        @ [RegisterCallback ''pyblishQmlShown'' OnShown]
        @ (if new_service e = None then [NewService] else [])
        @ [PrintExc]
        @ (if qt_loaded (interp e) \<and> qapp (interp e) \<and> splash_alive e then [SplashClose] else [])
        @ [DeregisterCallback ''pyblishQmlShown'' OnShown]"
  using assms
  by (auto simp add: show_new_def show_splash_def on_shown_def splash_close_def
        register_callback_def deregister_callback_def emit_def Let_def
        split: option.splits sum.splits)


lemma show_new_state:
  "state (snd (show_new e w)) =
     (if new_service e = None \<and> new_show e = None
      then (case new_server e of Inl x \<Rightarrow> state w
            | Inr s \<Rightarrow> (state w)(''currentServer'' \<mapsto> VServer s))
      else state w)"
  by (auto simp add: show_new_def show_splash_def on_shown_def splash_close_def
        register_callback_def deregister_callback_def emit_def Let_def
        split: option.splits sum.splits)

lemma show_existing_absent:
  "state w ''currentServer'' = None \<Longrightarrow> show_existing e w = (None, w)"
  by (simp add: show_existing_def dict_get_def)

lemma show_existing_ioerror:
  "truthy (dict_get (state w) ''currentServer'') \<Longrightarrow> existing_show e = Some IOError \<Longrightarrow>
     show_existing e w = (None, w\<lparr>state := (state w)(''currentServer'' := None)\<rparr>)"
  by (auto simp add: show_existing_def dict_get_def dict_item_def dict_pop_def split: option.splits)

lemma show_existing_reuse:
  "truthy (dict_get (state w) ''currentServer'') \<Longrightarrow> existing_show e = None \<Longrightarrow>
     show_existing e w = (Some (Inr (dict_get (state w) ''currentServer'')),
        emit (ProxyShow (dict_get (state w) ''currentServer'') (settings w)) w)"
  by (auto simp add: show_existing_def dict_get_def dict_item_def split: option.splits)

lemma show_gui_start_trace:
  "\<exists>H. trace (if \<not> truthy (dict_get (state w) ''installed'') then snd (install e w) else w)
          = trace w @ H
     \<and> NewService \<notin> set H \<and> (\<forall>s. NewServer s \<notin> set H) \<and> (\<forall>v u. ProxyShow v u \<notin> set H)"
proof (cases "truthy (dict_get (state w) ''installed'')")
  case True
  then show ?thesis by simp
next
  case False
  then show ?thesis using install_trace_fresh_any [OF False, of e] by simp
qed


lemmas eval_defs =
  show_gui_def show_existing_def show_new_def show_splash_def on_shown_def splash_close_def
  install_def uninstall_def install_callbacks_def uninstall_callbacks_def
  register_callback_def deregister_callback_def
  install_host_def installers_def installer_defs register_threaded_wrapper
  connect_application_quit_def emit_def dict_get_def dict_item_def dict_pop_def Let_def
  fresh_world_def maya_session_def hiero_session_def

text \<open>
  Claim C7. When \<open>show()\<close> reaches the constructors (no server is stored, or the
  stored one answered \<open>IOError\<close>) and \<open>Service()\<close> or \<open>Server(service)\<close> raises any
  exception, \<open>show()\<close> returns \<open>None\<close>, the dictionary has no entry under
  \<open>"currentServer"\<close>, and the trace ends with the printed traceback, the closing of the
  splash screen if one was shown and still exists, and the deregistration of the
  \<open>"pyblishQmlShown"\<close> callback registered before; no server was created and no window
  shown.
\<close>

theorem show_gui_server_failure:
  assumes "new_service e \<noteq> None \<or> (\<exists>x. new_server e = Inl x)"
    and "state w ''currentServer'' = None
         \<or> truthy (dict_get (state w) ''currentServer'') \<and> existing_show e = Some IOError"
  shows "fst (show_gui e w) = Inr VNone
     \<and> state (snd (show_gui e w)) ''currentServer'' = None
     \<and> (\<exists>H. trace (snd (show_gui e w)) = trace w @ H
            @ [RegisterCallback ''pyblishQmlShown'' OnShown]
            @ (if new_service e = None then [NewService] else [])
            @ [PrintExc]
            @ (if qt_loaded (interp e) \<and> qapp (interp e) \<and> splash_alive e then [SplashClose] else [])
            @ [DeregisterCallback ''pyblishQmlShown'' OnShown]
          \<and> (\<forall>s. NewServer s \<notin> set H) \<and> (\<forall>v u. ProxyShow v u \<notin> set H))"
proof -
  define w1 where "w1 = (if \<not> truthy (dict_get (state w) ''installed'')
                         then snd (install (interp e) w) else w)"
  have cs: "state w1 ''currentServer'' = state w ''currentServer''"
    by (simp add: w1_def install_state)
  obtain H where H: "trace w1 = trace w @ H" "\<forall>s. NewServer s \<notin> set H"
      "\<forall>v u. ProxyShow v u \<notin> set H"
    using show_gui_start_trace [of w "interp e"] unfolding w1_def by blast
  obtain w2 where w2: "show_existing e w1 = (None, w2)" "state w2 ''currentServer'' = None"
      "trace w2 = trace w1"
  proof (cases "state w ''currentServer'' = None")
    case True
    then have "show_existing e w1 = (None, w1)" using cs by (simp add: show_existing_absent)
    then show ?thesis using that True cs by simp
  next
    case False
    then have "truthy (dict_get (state w1) ''currentServer'')" "existing_show e = Some IOError"
      using assms(2) cs by (auto simp add: dict_get_def)
    then have "show_existing e w1 = (None, w1\<lparr>state := (state w1)(''currentServer'' := None)\<rparr>)"
      by (rule show_existing_ioerror)
    then show ?thesis using that by simp
  qed
  have g: "show_gui e w = show_new e w2"
    using w2(1) by (simp add: show_gui_unfold w1_def)
  note f = show_new_failure [OF assms(1), of w2]
  let ?S = "(if qt_loaded (interp e) \<and> qapp (interp e) then [SplashShow] else [])"
  have "(\<forall>s. NewServer s \<notin> set (H @ ?S)) \<and> (\<forall>v u. ProxyShow v u \<notin> set (H @ ?S))"
    using H by simp
  moreover have "trace (snd (show_gui e w)) = trace w @ (H @ ?S)
            @ [RegisterCallback ''pyblishQmlShown'' OnShown]
            @ (if new_service e = None then [NewService] else [])
            @ [PrintExc]
            @ (if qt_loaded (interp e) \<and> qapp (interp e) \<and> splash_alive e then [SplashClose] else [])
            @ [DeregisterCallback ''pyblishQmlShown'' OnShown]"
    using H(1) w2(3) by (simp add: g f(3))
  moreover have "fst (show_gui e w) = Inr VNone"
    by (simp add: g f(1))
  moreover have "state (snd (show_gui e w)) ''currentServer'' = None"
    using w2(2) by (simp add: g f(2))
  ultimately show ?thesis by blast
qed

theorem show_gui_server_failure_witness:
  "fst (show_gui launch_fails (fresh_world default_settings)) = Inr VNone
   \<and> state (snd (show_gui launch_fails (fresh_world default_settings))) ''currentServer'' = None
   \<and> trace (snd (show_gui launch_fails (fresh_world default_settings))) =
       [RegisterCallback ''instanceToggled'' ToggleInstance,
        RegisterCallback ''pluginToggled'' TogglePlugin,
        Stdout (''Setting up Pyblish QML in Maya'' @ newline), AboutToQuitConnect, SplashShow,
        RegisterCallback ''pyblishQmlShown'' OnShown, NewService, PrintExc, SplashClose,
        DeregisterCallback ''pyblishQmlShown'' OnShown]"
  using show_gui_server_failure [of launch_fails "fresh_world default_settings"]
  by (simp add: eval_defs launch_fails_def)

text \<open>The example worlds, evaluated.\<close>

lemma first_launch:
  "show_gui launch_ok (fresh_world default_settings) = (Inr (VServer (Server 1)), maya_running)"
  by (simp add: eval_defs launch_ok_def default_settings_def maya_running_def)


subsection \<open>Order of installation\<close>





subsection \<open>The server reference\<close>

text \<open>No call stores a server anywhere but under \<open>"currentServer"\<close>.\<close>

lemma show_existing_state:
  "state (snd (show_existing e w)) = state w
   \<or> state (snd (show_existing e w)) = (state w)(''currentServer'' := None)"
proof (cases "truthy (dict_get (state w) ''currentServer'')")
  case False
  then show ?thesis by (simp add: show_existing_def)
next
  case True
  then obtain v where v: "state w ''currentServer'' = Some v"
    by (auto simp add: dict_get_def split: option.splits)
  show ?thesis
  proof (cases "existing_show e")
    case None
    then show ?thesis using True v by (simp add: show_existing_def dict_item_def emit_def)
  next
    case (Some x)
    then show ?thesis using True v
      by (cases x) (simp_all add: show_existing_def dict_item_def dict_pop_def)
  qed
qed

lemma on_application_quit_state: "state (snd (on_application_quit kill w)) = state w"
proof (cases "state w ''currentServer''")
  case None
  then show ?thesis by (simp add: on_application_quit_def dict_item_def)
next
  case (Some v)
  show ?thesis
  proof (cases v)
    case (VServer s)
    show ?thesis
    proof (cases kill)
      case None
      then show ?thesis using Some VServer
        by (simp add: on_application_quit_def dict_item_def emit_def)
    next
      case (Some x)
      then show ?thesis using \<open>state w ''currentServer'' = Some v\<close> VServer
        by (cases x) (simp_all add: on_application_quit_def dict_item_def)
    qed
  qed (use Some in \<open>simp_all add: on_application_quit_def dict_item_def\<close>)
qed

lemma install_host_server_refs:
  assumes "state (snd (install_host e w)) k = Some (VServer s)"
  shows "state w k = Some (VServer s)"
proof (cases "k = ''dispatchWrapper''")
  case True
  from install_host_wrapper [of e w] show ?thesis
  proof
    assume "state (snd (install_host e w)) ''dispatchWrapper'' = state w ''dispatchWrapper''"
    then show ?thesis using assms True by simp
  next
    assume "\<exists>wr. state (snd (install_host e w)) ''dispatchWrapper'' = Some (VWrapper wr)"
    then show ?thesis using assms True by auto
  qed
next
  case False
  then show ?thesis using assms install_host_state [of k e w] by simp
qed

lemma install_server_refs:
  assumes "state (snd (install e w)) k = Some (VServer s)"
  shows "state w k = Some (VServer s)"
  using install_outcome [of e w]
proof
  assume "(\<exists>x. fst (install e w) = Inl x) \<and> state (snd (install e w)) = state w"
  then show ?thesis using assms by simp
next
  assume "\<exists>w2. state w2 = state w \<and> fst (install e w) = Inr ()
         \<and> state (snd (install e w)) = (state (snd (install_host e w2)))(''installed'' \<mapsto> VBool True)"
  then obtain w2 where w2: "state w2 = state w"
    "state (snd (install e w)) = (state (snd (install_host e w2)))(''installed'' \<mapsto> VBool True)"
    by blast
  have "k \<noteq> ''installed''" using assms w2(2) by auto
  then have "state (snd (install_host e w2)) k = Some (VServer s)" using assms w2(2) by simp
  then have "state w2 k = Some (VServer s)" by (rule install_host_server_refs)
  then show ?thesis using w2(1) by simp
qed

lemma show_new_server_refs:
  assumes "state (snd (show_new e w)) k = Some (VServer s)" "k \<noteq> ''currentServer''"
  shows "state w k = Some (VServer s)"
proof (cases "new_service e = None \<and> new_show e = None")
  case False
  then have "state (snd (show_new e w)) = state w" by (simp only: show_new_state if_False)
  then show ?thesis using assms(1) by simp
next
  case True
  show ?thesis
  proof (cases "new_server e")
    case (Inl x)
    then have "state (snd (show_new e w)) = state w" using True by (simp add: show_new_state)
    then show ?thesis using assms(1) by simp
  next
    case (Inr srv)
    then have "state (snd (show_new e w)) = (state w)(''currentServer'' \<mapsto> VServer srv)"
      using True by (simp add: show_new_state)
    then show ?thesis using assms by simp
  qed
qed

lemma show_gui_server_refs:
  assumes "state (snd (show_gui e w)) k = Some (VServer s)"
  shows "k = ''currentServer'' \<or> state w k = Some (VServer s)"
proof (cases "k = ''currentServer''")
  case True
  then show ?thesis by simp
next
  case k: False
  define w1 where "w1 = (if \<not> truthy (dict_get (state w) ''installed'')
                         then snd (install (interp e) w) else w)"
  have s1: "state w k = Some (VServer s)" if "state w1 k = Some (VServer s)"
  proof (cases "truthy (dict_get (state w) ''installed'')")
    case True
    then show ?thesis using that by (simp add: w1_def)
  next
    case False
    then have "state (snd (install (interp e) w)) k = Some (VServer s)"
      using that by (simp add: w1_def)
    then show ?thesis by (rule install_server_refs)
  qed
  obtain r w2 where x: "show_existing e w1 = (r, w2)" by (cases "show_existing e w1")
  have "state w2 = state w1 \<or> state w2 = (state w1)(''currentServer'' := None)"
    using show_existing_state [of e w1] x by simp
  then have s2: "state w2 k = state w1 k"
    using k by auto
  have "state w k = Some (VServer s)"
  proof (cases r)
    case None
    then have "show_gui e w = show_new e w2"
      using x by (simp add: show_gui_unfold w1_def)
    then have "state (snd (show_new e w2)) k = Some (VServer s)" using assms by simp
    then have "state w2 k = Some (VServer s)"
      using k by (rule show_new_server_refs)
    then show ?thesis using s1 s2 by simp
  next
    case (Some a)
    then have "show_gui e w = (a, w2)"
      using x by (simp add: show_gui_unfold w1_def)
    then have "state w2 k = Some (VServer s)" using assms by simp
    then show ?thesis using s1 s2 by simp
  qed
  then show ?thesis by simp
qed

lemma step_server_refs:
  assumes "state (step c w) k = Some (VServer s)"
  shows "k = ''currentServer'' \<or> state w k = Some (VServer s)"
proof (cases c)
  case (CallRegisterDispatchWrapper wr)
  then show ?thesis using assms
    by (auto simp add: register_dispatch_wrapper_def split: sum.splits if_splits)
next
  case CallDeregisterDispatchWrapper
  then show ?thesis using assms
    by (auto simp add: deregister_dispatch_wrapper_def dict_pop_def split: option.splits if_splits)
next
  case (CallInstall e)
  then have "state (snd (install e w)) k = Some (VServer s)" using assms by simp
  then have "state w k = Some (VServer s)" by (rule install_server_refs)
  then show ?thesis by simp
next
  case CallUninstall
  then show ?thesis using assms by (simp add: uninstall_state)
next
  case (CallShow e)
  then have "state (snd (show_gui e w)) k = Some (VServer s)" using assms by simp
  then show ?thesis by (rule show_gui_server_refs)
next
  case CallInstallCallbacks
  then show ?thesis using assms by (simp add: install_callbacks_proj)
next
  case CallUninstallCallbacks
  then show ?thesis using assms by (simp add: uninstall_callbacks_state)
next
  case (CallRegisterPythonExecutable isfile path)
  then show ?thesis using assms
    by (auto simp add: register_python_executable_def split: if_splits)
next
  case (CallRegisterPyqt5 path)
  then show ?thesis using assms by (auto simp add: register_pyqt5_def split: if_splits)
next
  case (CallInstallHost e)
  then have "state (snd (install_host e w)) k = Some (VServer s)" using assms by simp
  then have "state w k = Some (VServer s)" by (rule install_host_server_refs)
  then show ?thesis by simp
next
  case (HostQuit kill)
  then show ?thesis using assms by (simp add: on_application_quit_state)
qed

lemma run_server_refs:
  "\<forall>k s. state w k = Some (VServer s) \<longrightarrow> k = ''currentServer'' \<Longrightarrow>
     state (run cs w) k = Some (VServer s) \<Longrightarrow> k = ''currentServer''"
proof (induction cs arbitrary: w)
  case Nil
  then show ?case by simp
next
  case (Cons c cs)
  have "\<forall>k s. state (step c w) k = Some (VServer s) \<longrightarrow> k = ''currentServer''"
    using Cons.prems(1) step_server_refs by blast
  then show ?case using Cons.IH [of "step c w"] Cons.prems(2) by simp
qed


lemma second_launch:
  "show_gui launch_ok maya_running =
     (Inr (VServer (Server 1)),
      emit (ProxyShow (VServer (Server 1)) \<lparr>ContextLabel = ''Maya'', WindowTitle = ''Pyblish (Maya)''\<rparr>)
        maya_running)"
  by (simp add: show_gui_def show_existing_def dict_get_def dict_item_def launch_ok_def
        maya_running_def emit_def)

lemma stale_launch_state:
  "state (snd (show_gui stale_relaunch (emit ev maya_running))) =
     [''dispatchWrapper'' \<mapsto> VWrapper (threaded_wrapper MayaUtils Unpacked),
      ''installed'' \<mapsto> VBool True, ''currentServer'' \<mapsto> VServer (Server 2)]"
  by (simp add: show_gui_def show_existing_def show_new_def show_splash_def dict_get_def
        dict_item_def dict_pop_def stale_relaunch_def maya_running_def emit_def Let_def
        register_callback_def maya_session_def fun_upd_twist)

text \<open>
  Claim C3. The dictionary holds at most one reference to a server: starting from a
  world in which servers are stored under \<open>"currentServer"\<close> only, after every sequence of
  calls any server in the dictionary is under \<open>"currentServer"\<close>, so two entries that
  hold a server are the same entry. With a server stored, \<open>show()\<close> returns it when
  \<open>proxy.show\<close> succeeds, keeps the entry, creates no service and no server, and ends by
  showing the window. When \<open>proxy.show\<close> raises \<open>IOError\<close>, \<open>show()\<close> goes on as \<open>show_new\<close> in
  the world with the entry removed, and afterwards the entry is the new server if one was
  created and shown, and absent otherwise.
\<close>

theorem single_server_reference:
  "((\<forall>k s. state w k = Some (VServer s) \<longrightarrow> k = ''currentServer'') \<longrightarrow>
      (\<forall>k s. state (run cs w) k = Some (VServer s) \<longrightarrow> k = ''currentServer'')
      \<and> (\<forall>k k' s s'. state (run cs w) k = Some (VServer s)
            \<and> state (run cs w) k' = Some (VServer s') \<longrightarrow> k = k' \<and> s = s'))
   \<and> (state w ''currentServer'' = Some v \<and> truthy v \<and> existing_show e = None \<longrightarrow>
        fst (show_gui e w) = Inr v
        \<and> state (snd (show_gui e w)) ''currentServer'' = Some v
        \<and> (\<exists>H. trace (snd (show_gui e w))
                  = trace w @ H @ [ProxyShow v (settings (snd (show_gui e w)))]
             \<and> NewService \<notin> set H \<and> (\<forall>s. NewServer s \<notin> set H)))
   \<and> (state w ''currentServer'' = Some v \<and> truthy v \<and> existing_show e = Some IOError \<longrightarrow>
        show_gui e w =
          show_new e
            ((if \<not> truthy (dict_get (state w) ''installed'') then snd (install (interp e) w) else w)
               \<lparr>state := (state (if \<not> truthy (dict_get (state w) ''installed'')
                                 then snd (install (interp e) w) else w))
                           (''currentServer'' := None)\<rparr>)
        \<and> state (snd (show_gui e w)) ''currentServer''
            = (if new_service e = None \<and> new_show e = None
               then (case new_server e of Inl x \<Rightarrow> None | Inr s \<Rightarrow> Some (VServer s))
               else None))"
proof (intro conjI impI)
  assume inv: "\<forall>k s. state w k = Some (VServer s) \<longrightarrow> k = ''currentServer''"
  then have a: "\<forall>k s. state (run cs w) k = Some (VServer s) \<longrightarrow> k = ''currentServer''"
    using run_server_refs by blast
  then show "\<forall>k s. state (run cs w) k = Some (VServer s) \<longrightarrow> k = ''currentServer''" .
  show "\<forall>k k' s s'. state (run cs w) k = Some (VServer s)
            \<and> state (run cs w) k' = Some (VServer s') \<longrightarrow> k = k' \<and> s = s'"
  proof (intro allI impI)
    fix k k' s s'
    assume b: "state (run cs w) k = Some (VServer s) \<and> state (run cs w) k' = Some (VServer s')"
    then have "k = ''currentServer''" "k' = ''currentServer''" using a by blast+
    then show "k = k' \<and> s = s'" using b by auto
  qed
next
  assume h: "state w ''currentServer'' = Some v \<and> truthy v \<and> existing_show e = None"
  define w1 where "w1 = (if \<not> truthy (dict_get (state w) ''installed'')
                         then snd (install (interp e) w) else w)"
  have cs: "state w1 ''currentServer'' = Some v"
    using h by (simp add: w1_def install_state)
  obtain H where H: "trace w1 = trace w @ H" "NewService \<notin> set H" "\<forall>s. NewServer s \<notin> set H"
    using show_gui_start_trace [of w "interp e"] unfolding w1_def by blast
  have "show_existing e w1 = (Some (Inr v), emit (ProxyShow v (settings w1)) w1)"
    using show_existing_reuse [of w1 e] cs h by (simp add: dict_get_def)
  then have g: "show_gui e w = (Inr v, emit (ProxyShow v (settings w1)) w1)"
    by (simp add: show_gui_unfold w1_def)
  show "fst (show_gui e w) = Inr v" by (simp add: g)
  show "state (snd (show_gui e w)) ''currentServer'' = Some v" using cs by (simp add: g emit_def)
  have "trace (snd (show_gui e w)) = trace w @ H @ [ProxyShow v (settings (snd (show_gui e w)))]"
    using H(1) by (simp add: g emit_def)
  then show "\<exists>H. trace (snd (show_gui e w))
                  = trace w @ H @ [ProxyShow v (settings (snd (show_gui e w)))]
             \<and> NewService \<notin> set H \<and> (\<forall>s. NewServer s \<notin> set H)"
    using H(2,3) by blast
next
  assume h: "state w ''currentServer'' = Some v \<and> truthy v \<and> existing_show e = Some IOError"
  define w1 where "w1 = (if \<not> truthy (dict_get (state w) ''installed'')
                         then snd (install (interp e) w) else w)"
  have cs: "state w1 ''currentServer'' = Some v"
    using h by (simp add: w1_def install_state)
  have "show_existing e w1 = (None, w1\<lparr>state := (state w1)(''currentServer'' := None)\<rparr>)"
    using show_existing_ioerror [of w1 e] cs h by (simp add: dict_get_def)
  then have g: "show_gui e w = show_new e (w1\<lparr>state := (state w1)(''currentServer'' := None)\<rparr>)"
    by (simp add: show_gui_unfold w1_def)
  then show "show_gui e w =
          show_new e
            ((if \<not> truthy (dict_get (state w) ''installed'') then snd (install (interp e) w) else w)
               \<lparr>state := (state (if \<not> truthy (dict_get (state w) ''installed'')
                                 then snd (install (interp e) w) else w))
                           (''currentServer'' := None)\<rparr>)"
    unfolding w1_def .
  show "state (snd (show_gui e w)) ''currentServer''
            = (if new_service e = None \<and> new_show e = None
               then (case new_server e of Inl x \<Rightarrow> None | Inr s \<Rightarrow> Some (VServer s))
               else None)"
    by (simp add: g show_new_state split: sum.splits)
qed

theorem single_server_reference_witness:
  "state (run [CallShow launch_ok, CallShow launch_ok, CallShow stale_relaunch]
            (fresh_world default_settings)) ''currentServer'' = Some (VServer (Server 2))
   \<and> state (run [CallShow launch_ok, CallShow launch_ok, CallShow stale_relaunch]
            (fresh_world default_settings)) ''dispatchWrapper'' \<noteq> Some (VServer (Server 2))
   \<and> fst (show_gui launch_ok maya_running) = Inr (VServer (Server 1))
   \<and> state (snd (show_gui launch_ok maya_running)) ''currentServer'' = Some (VServer (Server 1))
   \<and> state (snd (show_gui stale_relaunch maya_running)) ''currentServer''
       = Some (VServer (Server 2))"
proof -
  have inv: "\<forall>k s. state (fresh_world default_settings) k = Some (VServer s) \<longrightarrow> k = ''currentServer''"
    by (simp add: fresh_world_def)
  have cs: "state maya_running ''currentServer'' = Some (VServer (Server 1))"
    by (simp add: maya_running_def)
  note t1 = single_server_reference [of "fresh_world default_settings"
      "[CallShow launch_ok, CallShow launch_ok, CallShow stale_relaunch]"
      "VServer (Server 1)" launch_ok]
  note t2 = single_server_reference [of maya_running "[]" "VServer (Server 1)" launch_ok]
  note t3 = single_server_reference [of maya_running "[]" "VServer (Server 1)" stale_relaunch]
  have a: "fst (show_gui launch_ok maya_running) = Inr (VServer (Server 1))
      \<and> state (snd (show_gui launch_ok maya_running)) ''currentServer'' = Some (VServer (Server 1))"
    using t2 cs by (simp add: launch_ok_def)
  have i: "truthy (dict_get (state maya_running) ''installed'')"
    by (simp add: maya_running_def dict_get_def)
  have f: "existing_show stale_relaunch = Some IOError" "new_service stale_relaunch = None"
      "new_show stale_relaunch = None" "new_server stale_relaunch = Inr (Server 2)"
    by (simp_all add: stale_relaunch_def)
  have b: "state (snd (show_gui stale_relaunch maya_running)) ''currentServer''
       = Some (VServer (Server 2))"
    using t3 cs i by (simp add: f show_new_state)
  have c: "\<forall>k s. state (run [CallShow launch_ok, CallShow launch_ok, CallShow stale_relaunch]
            (fresh_world default_settings)) k = Some (VServer s) \<longrightarrow> k = ''currentServer''"
    by (rule t1 [THEN conjunct1, THEN mp, OF inv, THEN conjunct1])
  have d: "state (run [CallShow launch_ok, CallShow launch_ok, CallShow stale_relaunch]
            (fresh_world default_settings)) ''dispatchWrapper'' \<noteq> Some (VServer (Server 2))"
    using c [THEN spec, THEN spec, of "''dispatchWrapper''" "Server 2"] by auto
  have e: "state (run [CallShow launch_ok, CallShow launch_ok, CallShow stale_relaunch]
            (fresh_world default_settings)) ''currentServer'' = Some (VServer (Server 2))"
    by (simp add: first_launch second_launch stale_launch_state)
  from e d a b show ?thesis by blast
qed

end
